theory Spec2Isabelle
  imports Complex_Main
begin

section \<open>CropSense forecast service (services/gemini-ai.js)\<close>

text \<open>
  A shallow embedding of the class \<open>GeminiAIService\<close>: the mock forecast generator, the
  cleaning, validation and reshaping of the model's reply, the fallback in
  \<open>generateForecast\<close>, the market heatmap and the volatility bucket.

  What the JavaScript platform supplies is a parameter of the model (the record
  \<open>platform\<close> below); what the service itself computes is defined here. Numbers are the
  reals (ideal arithmetic: no rounding error, no overflow), with \<open>NaN\<close> added where the
  service can produce it. Strings are HOL strings, one character for one code unit below
  256. The display strings of a forecast (\<open>actionSummary\<close> of the mock, \<open>recommendations\<close>)
  and its wall-clock stamps (\<open>timestamp\<close>, \<open>metadata\<close>) are not carried by the records;
  the exceptions that building them can raise are.
\<close>

subsection \<open>JavaScript values\<close>

text \<open>Exceptions, by the class of the thrown object; \<open>Error\<close> carries its message.\<close>

datatype error = SyntaxError | TypeError | RangeError | Error string

text \<open>A number that is finite or \<open>NaN\<close>. Arithmetic with \<open>NaN\<close> gives \<open>NaN\<close>, every
  comparison with \<open>NaN\<close> is false.\<close>

datatype number = NaN | Num real

fun nadd :: "number \<Rightarrow> number \<Rightarrow> number" where
  "nadd (Num a) (Num b) = Num (a + b)"
| "nadd _ _ = NaN"

fun nmul :: "number \<Rightarrow> number \<Rightarrow> number" where
  "nmul (Num a) (Num b) = Num (a * b)"
| "nmul _ _ = NaN"

text \<open>\<open>x / c\<close> for a literal divisor \<open>c\<close> other than zero (the service divides by 30 and by
  100).\<close>

fun ndiv :: "number \<Rightarrow> real \<Rightarrow> number" where
  "ndiv (Num a) c = Num (a / c)"
| "ndiv NaN c = NaN"

text \<open>\<open>Math.round\<close>: the nearest integer, a tie going up.\<close>

fun nround :: "number \<Rightarrow> number" where
  "nround (Num a) = Num (of_int (round a))"
| "nround NaN = NaN"

fun ngt :: "number \<Rightarrow> number \<Rightarrow> bool" where
  "ngt (Num a) (Num b) = (a > b)"
| "ngt _ _ = False"

text \<open>\<open>xs.reduce((a, b) => a + b, 0)\<close>\<close>

definition nsum :: "number list \<Rightarrow> number" where
  "nsum xs = foldl nadd (Num 0) xs"

text \<open>The result of \<open>JSON.parse\<close>, an object listing each of its keys once; \<open>None\<close> of
  type \<open>json option\<close> is \<open>undefined\<close>.\<close>

datatype json = JNull | JBool bool | JNum real | JStr string | JArr "json list"
  | JObj "(string \<times> json) list"

text \<open>\<open>!v\<close> is false exactly for the truthy values.\<close>

fun truthy :: "json option \<Rightarrow> bool" where
  "truthy None = False"
| "truthy (Some JNull) = False"
| "truthy (Some (JBool b)) = b"
| "truthy (Some (JNum x)) = (x \<noteq> 0)"
| "truthy (Some (JStr s)) = (s \<noteq> [])"
| "truthy (Some (JArr xs)) = True"
| "truthy (Some (JObj kvs)) = True"

text \<open>
  \<open>v[key]\<close> or \<open>v.key\<close> for the property names the service reads from parsed JSON
  (\<open>forecast_trend\<close>, \<open>glut_risk\<close>, \<open>expected_demand_kg\<close>, ...). None of them is a property
  of a built-in prototype, so a value that does not own the property yields
  \<open>undefined\<close>; reading a property of \<open>null\<close> throws.
\<close>

fun getProp :: "json \<Rightarrow> string \<Rightarrow> error + json option" where
  "getProp JNull key = Inl TypeError"
| "getProp (JObj kvs) key = Inr (map_of kvs key)"
| "getProp _ key = Inr None"

text \<open>
  A lookup \<open>table[key]\<close> in an object literal with a key chosen by the caller. An object
  literal inherits from \<open>Object.prototype\<close>, so a key that names one of its properties
  finds that property (a function, or the prototype itself for \<open>__proto__\<close>): a truthy
  value that is not an entry of the table.
\<close>

definition objectPrototypeKeys :: "string list" where
  "objectPrototypeKeys =
     [''constructor'', ''__defineGetter__'', ''__defineSetter__'', ''hasOwnProperty'',
      ''__lookupGetter__'', ''__lookupSetter__'', ''isPrototypeOf'',
      ''propertyIsEnumerable'', ''toString'', ''valueOf'', ''__proto__'',
      ''toLocaleString'']"

datatype 'a lookup = Own 'a | Inherited | Absent

definition objectLookup :: "(string \<times> 'a) list \<Rightarrow> string \<Rightarrow> 'a lookup" where
  "objectLookup table key =
     (case map_of table key of
        Some v \<Rightarrow> Own v
      | None \<Rightarrow> if key \<in> set objectPrototypeKeys then Inherited else Absent)"

text \<open>
  \<open>ToString\<close> of a parsed JSON value, as a template literal, \<open>Array.prototype.join\<close>, a
  property key and \<open>new Date(v)\<close> apply it. The text of a number is the platform's
  (\<open>nts\<close>). An array is the texts of its elements joined by a comma, \<open>null\<close> counting as
  the empty text. An object is \<open>[object Object]\<close>, unless it owns a property
  \<open>toString\<close>: a parsed value is never callable, the inherited \<open>valueOf\<close> returns the
  object itself, and the conversion throws.
\<close>

fun joinWith :: "string \<Rightarrow> string list \<Rightarrow> string" where
  "joinWith sep [] = []"
| "joinWith sep [t] = t"
| "joinWith sep (t # u # us) = t @ sep @ joinWith sep (u # us)"

fun jsToString :: "(real \<Rightarrow> string) \<Rightarrow> json \<Rightarrow> error + string"
  and elementTexts :: "(real \<Rightarrow> string) \<Rightarrow> json list \<Rightarrow> error + string list" where
  "jsToString nts JNull = Inr ''null''"
| "jsToString nts (JBool b) = Inr (if b then ''true'' else ''false'')"
| "jsToString nts (JNum x) = Inr (nts x)"
| "jsToString nts (JStr s) = Inr s"
| "jsToString nts (JArr xs) =
     (case elementTexts nts xs of Inl e \<Rightarrow> Inl e | Inr ts \<Rightarrow> Inr (joinWith '','' ts))"
| "jsToString nts (JObj kvs) =
     (if ''toString'' \<in> fst ` set kvs then Inl TypeError else Inr ''[object Object]'')"
| "elementTexts nts [] = Inr []"
| "elementTexts nts (x # xs) =
     (case (if x = JNull then Inr [] else jsToString nts x) of
        Inl e \<Rightarrow> Inl e
      | Inr t \<Rightarrow> (case elementTexts nts xs of Inl e \<Rightarrow> Inl e | Inr ts \<Rightarrow> Inr (t # ts)))"

subsection \<open>The platform\<close>

text \<open>
  \<^item> \<open>mathRandom k\<close>: the value of the \<open>k\<close>-th call of \<open>Math.random()\<close>. The functions that
    draw random numbers take the number of calls made so far and return it updated.
  \<^item> \<open>dateNow\<close>: the time value (milliseconds since the epoch) that \<open>new Date()\<close> reads in
    \<open>generateMockForecast\<close>.
  \<^item> \<open>localTZA\<close>: the offset of local time from UTC in milliseconds, taken as constant.
  \<^item> \<open>jsonParse\<close>: \<open>JSON.parse\<close>, \<open>None\<close> when it throws a \<open>SyntaxError\<close>.
  \<^item> \<open>numberToString\<close>: the text of a number.
\<close>

record platform =
  mathRandom :: "nat \<Rightarrow> real"
  dateNow :: int
  localTZA :: int
  jsonParse :: "string \<Rightarrow> json option"
  numberToString :: "real \<Rightarrow> string"

subsection \<open>Dates\<close>

text \<open>
  A \<open>Date\<close> holds a time value; the day and calendar functions are those of ECMAScript
  (Day, TimeWithinDay, DaysInYear, DayFromYear, YearFromTime, InLeapYear, MonthFromTime,
  DateFromTime, MakeDay, MakeDate, TimeClip). \<open>YearFromTime\<close> is computed from an
  estimate that is corrected by at most one year.
\<close>

definition msPerDay :: int where
  "msPerDay = 86400000"

definition Day :: "int \<Rightarrow> int" where
  "Day t = t div msPerDay"

definition TimeWithinDay :: "int \<Rightarrow> int" where
  "TimeWithinDay t = t mod msPerDay"

definition DaysInYear :: "int \<Rightarrow> int" where
  "DaysInYear y =
     (if y mod 4 \<noteq> 0 then 365 else if y mod 100 \<noteq> 0 then 366
      else if y mod 400 \<noteq> 0 then 365 else 366)"

definition DayFromYear :: "int \<Rightarrow> int" where
  "DayFromYear y =
     365 * (y - 1970) + (y - 1969) div 4 - (y - 1901) div 100 + (y - 1601) div 400"

definition YearFromTime :: "int \<Rightarrow> int" where
  "YearFromTime t =
     (let y = (t * 10000) div (msPerDay * 3652425) + 1970
      in if msPerDay * DayFromYear y > t then y - 1
         else if msPerDay * (DayFromYear y + DaysInYear y) \<le> t then y + 1
         else y)"

definition InLeapYear :: "int \<Rightarrow> int" where
  "InLeapYear t = (if DaysInYear (YearFromTime t) = 366 then 1 else 0)"

definition DayWithinYear :: "int \<Rightarrow> int" where
  "DayWithinYear t = Day t - DayFromYear (YearFromTime t)"

text \<open>The day within the year on which month \<open>m\<close> (0 to 11) starts.\<close>

definition monthStart :: "int \<Rightarrow> int \<Rightarrow> int" where
  "monthStart m leap =
     (if m = 0 then 0 else if m = 1 then 31 else if m = 2 then 59 + leap
      else if m = 3 then 90 + leap else if m = 4 then 120 + leap
      else if m = 5 then 151 + leap else if m = 6 then 181 + leap
      else if m = 7 then 212 + leap else if m = 8 then 243 + leap
      else if m = 9 then 273 + leap else if m = 10 then 304 + leap
      else 334 + leap)"

definition MonthFromTime :: "int \<Rightarrow> int" where
  "MonthFromTime t =
     (let d = DayWithinYear t; leap = InLeapYear t
      in if d < 31 then 0 else if d < 59 + leap then 1 else if d < 90 + leap then 2
         else if d < 120 + leap then 3 else if d < 151 + leap then 4
         else if d < 181 + leap then 5 else if d < 212 + leap then 6
         else if d < 243 + leap then 7 else if d < 273 + leap then 8
         else if d < 304 + leap then 9 else if d < 334 + leap then 10 else 11)"

definition DateFromTime :: "int \<Rightarrow> int" where
  "DateFromTime t = DayWithinYear t - monthStart (MonthFromTime t) (InLeapYear t) + 1"

definition MakeDay :: "int \<Rightarrow> int \<Rightarrow> int \<Rightarrow> int" where
  "MakeDay year month date =
     (let ym = year + month div 12; mn = month mod 12
      in DayFromYear ym + monthStart mn (if DaysInYear ym = 366 then 1 else 0) + date - 1)"

definition MakeDate :: "int \<Rightarrow> int \<Rightarrow> int" where
  "MakeDate day time = day * msPerDay + time"

text \<open>\<open>TimeClip\<close>: a time value beyond 8.64e15 milliseconds is \<open>NaN\<close>, an invalid date
  (\<open>None\<close>).\<close>

definition TimeClip :: "int \<Rightarrow> int option" where
  "TimeClip t = (if \<bar>t\<bar> > 8640000000000000 then None else Some t)"

definition LocalTime :: "platform \<Rightarrow> int \<Rightarrow> int" where
  "LocalTime P t = t + localTZA P"

definition UTC :: "platform \<Rightarrow> int \<Rightarrow> int" where
  "UTC P t = t - localTZA P"

text \<open>\<open>d.getDate()\<close> and \<open>d.setDate(date)\<close> for a valid date \<open>d\<close> of time value \<open>t\<close>;
  \<open>setDate\<close> gives the new time value of \<open>d\<close>.\<close>

definition getDate :: "platform \<Rightarrow> int \<Rightarrow> int" where
  "getDate P t = DateFromTime (LocalTime P t)"

definition setDate :: "platform \<Rightarrow> int \<Rightarrow> int \<Rightarrow> int option" where
  "setDate P t date =
     (let lt = LocalTime P t;
          newDate = MakeDate (MakeDay (YearFromTime lt) (MonthFromTime lt) date) (TimeWithinDay lt)
      in TimeClip (UTC P newDate))"

text \<open>The last \<open>w\<close> decimal digits of \<open>n\<close>.\<close>

primrec digits :: "nat \<Rightarrow> nat \<Rightarrow> string" where
  "digits 0 n = []"
| "digits (Suc w) n = digits w (n div 10) @ [''0123456789'' ! (n mod 10)]"

text \<open>\<open>d.toISOString().split('T')[0]\<close> for a valid date: the UTC calendar date, the year
  with four digits, or with a sign and six digits outside 0 to 9999.\<close>

definition isoDate :: "int \<Rightarrow> string" where
  "isoDate t =
     (let y = YearFromTime t
      in (if 0 \<le> y \<and> y \<le> 9999 then digits 4 (nat y)
          else (if y < 0 then ''-'' else ''+'') @ digits 6 (nat \<bar>y\<bar>))
         @ ''-'' @ digits 2 (nat (MonthFromTime t + 1))
         @ ''-'' @ digits 2 (nat (DateFromTime t)))"

subsection \<open>Cleaning the reply (cleanJsonResponse)\<close>

text \<open>White space as \<open>String.prototype.trim\<close> and the class \<open>\s\<close> see it, among the code
  units below 256.\<close>

definition isWhiteSpace :: "char \<Rightarrow> bool" where
  "isWhiteSpace c =
     (c \<in> set [CHR 0x09, CHR 0x0A, CHR 0x0B, CHR 0x0C, CHR 0x0D, CHR 0x20, CHR 0xA0])"

definition trim :: "string \<Rightarrow> string" where
  "trim s = rev (dropWhile isWhiteSpace (rev (dropWhile isWhiteSpace s)))"

text \<open>
  \<open>s.replace(/m\s*/g, '')\<close> for a literal marker \<open>m\<close>: scanning from the left, every
  occurrence of the marker is removed together with the white space that follows it.
\<close>

function stripMarker :: "string \<Rightarrow> string \<Rightarrow> string" where
  "stripMarker m [] = []"
| "stripMarker m (c # cs) =
     (if m \<noteq> [] \<and> take (length m) (c # cs) = m
      then stripMarker m (dropWhile isWhiteSpace (drop (length m) (c # cs)))
      else c # stripMarker m cs)"
  by pat_completeness auto
termination
proof (relation "measure (\<lambda>(m, s). length s)")
  show "wf (measure (\<lambda>(m, s). length s))" by simp
next
  fix m :: string and c cs
  assume "m \<noteq> [] \<and> take (length m) (c # cs) = m"
  then have pos: "0 < length m" by simp
  have "length (dropWhile isWhiteSpace (drop (length m) (c # cs)))
          \<le> length (drop (length m) (c # cs))"
    by (rule length_dropWhile_le)
  also have "\<dots> < length (c # cs)" using pos by simp
  finally show "((m, dropWhile isWhiteSpace (drop (length m) (c # cs))), (m, c # cs))
                  \<in> measure (\<lambda>(m, s). length s)"
    by simp
next
  fix m :: string and c cs
  show "((m, cs), (m, c # cs)) \<in> measure (\<lambda>(m, s). length s)" by simp
qed

text \<open>\<open>indexOf\<close> and \<open>lastIndexOf\<close> of a character; \<open>None\<close> is the result \<open>-1\<close>.\<close>

fun indexOf :: "char \<Rightarrow> string \<Rightarrow> nat option" where
  "indexOf c [] = None"
| "indexOf c (x # xs) = (if x = c then Some 0 else map_option Suc (indexOf c xs))"

definition lastIndexOf :: "char \<Rightarrow> string \<Rightarrow> nat option" where
  "lastIndexOf c s = map_option (\<lambda>i. length s - 1 - i) (indexOf c (rev s))"

text \<open>\<open>s.substring(start, end)\<close> for \<open>start \<le> end\<close>.\<close>

definition substring :: "string \<Rightarrow> nat \<Rightarrow> nat \<Rightarrow> string" where
  "substring s start end = take (end - start) (drop start s)"

text \<open>
  \<^verbatim>\<open>
  cleanJsonResponse(response) {
      let cleaned = response.trim();
      cleaned = cleaned.replace(/```json\s*/g, '').replace(/```\s*/g, '');
      const startIndex = cleaned.indexOf('{');
      const lastIndex = cleaned.lastIndexOf('}');
      if (startIndex !== -1 && lastIndex !== -1 && lastIndex > startIndex) {
          cleaned = cleaned.substring(startIndex, lastIndex + 1);
      }
      return cleaned;
  }
  \<close>
\<close>

definition stripFences :: "string \<Rightarrow> string" where
  "stripFences s = stripMarker ''```'' (stripMarker ''```json'' s)"

definition cleanJsonResponse :: "string \<Rightarrow> string" where
  "cleanJsonResponse response =
     (let cleaned = stripFences (trim response)
      in case (indexOf CHR ''{'' cleaned, lastIndexOf CHR ''}'' cleaned) of
           (Some startIndex, Some lastIndex) \<Rightarrow>
             if lastIndex > startIndex then substring cleaned startIndex (lastIndex + 1)
             else cleaned
         | _ \<Rightarrow> cleaned)"

subsection \<open>Validating the parsed reply (validateForecastData)\<close>

text \<open>
  \<^verbatim>\<open>
  validateForecastData(data) {
      const requiredFields = ['forecast_trend', 'glut_risk'];
      for (const field of requiredFields) {
          if (!data[field]) { throw new Error(`Missing required field: ${field}`); }
      }
      if (!Array.isArray(data.forecast_trend) || data.forecast_trend.length === 0) {
          throw new Error('forecast_trend must be a non-empty array');
      }
      if (!['Low', 'Medium', 'High'].includes(data.glut_risk)) {
          throw new Error('glut_risk must be Low, Medium, or High');
      }
  }
  \<close>
\<close>

fun checkRequired :: "json \<Rightarrow> string list \<Rightarrow> error + unit" where
  "checkRequired data [] = Inr ()"
| "checkRequired data (field # rest) =
     (case getProp data field of
        Inl e \<Rightarrow> Inl e
      | Inr v \<Rightarrow>
          if \<not> truthy v then Inl (Error (''Missing required field: '' @ field))
          else checkRequired data rest)"

fun isNonEmptyArray :: "json option \<Rightarrow> bool" where
  "isNonEmptyArray (Some (JArr xs)) = (xs \<noteq> [])"
| "isNonEmptyArray _ = False"

definition validateForecastData :: "json \<Rightarrow> error + unit" where
  "validateForecastData data =
     (case checkRequired data [''forecast_trend'', ''glut_risk''] of
        Inl e \<Rightarrow> Inl e
      | Inr _ \<Rightarrow>
          (case getProp data ''forecast_trend'' of
             Inl e \<Rightarrow> Inl e
           | Inr trend \<Rightarrow>
               if \<not> isNonEmptyArray trend
               then Inl (Error ''forecast_trend must be a non-empty array'')
               else
                 (case getProp data ''glut_risk'' of
                    Inl e \<Rightarrow> Inl e
                  | Inr risk \<Rightarrow>
                      if risk \<notin> set [Some (JStr ''Low''), Some (JStr ''Medium''),
                                      Some (JStr ''High'')]
                      then Inl (Error ''glut_risk must be Low, Medium, or High'')
                      else Inr ())))"

subsection \<open>Exceptions in sequence\<close>

text \<open>Statements run in order; the first exception ends the run.\<close>

fun andThen :: "error + 'a \<Rightarrow> ('a \<Rightarrow> error + 'b) \<Rightarrow> error + 'b" where
  "andThen (Inl e) f = Inl e"
| "andThen (Inr x) f = f x"

subsection \<open>The market heatmap (generateMarketHeatmap)\<close>

text \<open>
  \<^verbatim>\<open>
  generateMarketHeatmap(suggestedMarkets) {
      const marketData = [];
      const baseCoordinates = { 'KR Market': [12.9716, 77.5946], ... };
      suggestedMarkets.forEach((market, index) => {
          const coords = baseCoordinates[market]
              || [12.9716 + (Math.random() - 0.5) * 2, 77.5946 + (Math.random() - 0.5) * 2];
          marketData.push({ name: market, lat: coords[0], lng: coords[1], demand: 'high',
              price: 25 + Math.random() * 15, risk: index === 0 ? 'low' : 'medium' });
      });
      return marketData;
  }
  \<close>
  A market is any parsed value (the reply's \<open>suggested_markets\<close> are passed as they come);
  the key of the lookup is its text. For a key inherited from \<open>Object.prototype\<close> the
  value found is truthy, no random coordinates are drawn, and \<open>coords[0]\<close> and
  \<open>coords[1]\<close> are \<open>undefined\<close> (\<open>None\<close>).
\<close>

record marketRecord =
  name :: json
  lat :: "real option"
  lng :: "real option"
  demand :: string
  price :: real
  risk :: string

definition baseCoordinates :: "(string \<times> real \<times> real) list" where
  "baseCoordinates =
     [(''KR Market'', 12.9716, 77.5946),
      (''Yeshwantpur Market'', 13.0283, 77.5546),
      (''Bangalore Central Market'', 12.9716, 77.5946),
      (''Mysore Market'', 12.2958, 76.6394),
      (''Hubli Market'', 15.3647, 75.1240),
      (''Mangalore Market'', 12.9141, 74.8560)]"

fun marketHeatmapFrom ::
  "platform \<Rightarrow> json list \<Rightarrow> nat \<Rightarrow> nat \<Rightarrow> error + (marketRecord list \<times> nat)" where
  "marketHeatmapFrom P [] index k = Inr ([], k)"
| "marketHeatmapFrom P (market # rest) index k =
     andThen (jsToString (numberToString P) market) (\<lambda>key.
       let (coords, k1) =
             (case objectLookup baseCoordinates key of
                Own (la, lo) \<Rightarrow> ((Some la, Some lo), k)
              | Inherited \<Rightarrow> ((None, None), k)
              | Absent \<Rightarrow>
                  ((Some (12.9716 + (mathRandom P k - 0.5) * 2),
                    Some (77.5946 + (mathRandom P (k + 1) - 0.5) * 2)), k + 2));
           entry = \<lparr>name = market, lat = fst coords, lng = snd coords, demand = ''high'',
                    price = 25 + mathRandom P k1 * 15,
                    risk = (if index = 0 then ''low'' else ''medium'')\<rparr>
       in andThen (marketHeatmapFrom P rest (index + 1) (k1 + 1)) (\<lambda>(entries, k2).
            Inr (entry # entries, k2)))"

definition generateMarketHeatmap ::
  "platform \<Rightarrow> json list \<Rightarrow> nat \<Rightarrow> error + (marketRecord list \<times> nat)" where
  "generateMarketHeatmap P suggestedMarkets k = marketHeatmapFrom P suggestedMarkets 0 k"

subsection \<open>The mock forecast generator (generateMockForecast)\<close>

record 'a trend =
  day7 :: "'a list"
  day14 :: "'a list"
  day30 :: "'a list"

record cropParams =
  basePrice :: number
  volatility :: number
  demandMultiplier :: number

definition riceParams :: cropParams where
  "riceParams = \<lparr>basePrice = Num 25, volatility = Num 0.1, demandMultiplier = Num 1.2\<rparr>"

definition crops :: "(string \<times> cropParams) list" where
  "crops =
     [(''Rice'', riceParams),
      (''Wheat'', \<lparr>basePrice = Num 22, volatility = Num 0.08, demandMultiplier = Num 1.1\<rparr>),
      (''Maize'', \<lparr>basePrice = Num 18, volatility = Num 0.12, demandMultiplier = Num 1.0\<rparr>),
      (''Cotton'', \<lparr>basePrice = Num 45, volatility = Num 0.15, demandMultiplier = Num 0.9\<rparr>),
      (''Sugarcane'', \<lparr>basePrice = Num 3, volatility = Num 0.05, demandMultiplier = Num 1.3\<rparr>),
      (''Tomato'', \<lparr>basePrice = Num 35, volatility = Num 0.2, demandMultiplier = Num 1.1\<rparr>),
      (''Onion'', \<lparr>basePrice = Num 20, volatility = Num 0.18, demandMultiplier = Num 1.0\<rparr>),
      (''Potato'', \<lparr>basePrice = Num 15, volatility = Num 0.12, demandMultiplier = Num 1.1\<rparr>)]"

definition karnatakaMarkets :: "string list" where
  "karnatakaMarkets = [''KR Market'', ''Yeshwantpur Market'', ''Bangalore Central Market'']"

definition marketsByDistrict :: "(string \<times> string list) list" where
  "marketsByDistrict =
     [(''Karnataka'', karnatakaMarkets),
      (''Maharashtra'', [''Crawford Market'', ''Pune Market'', ''Nashik Market'']),
      (''Tamil Nadu'', [''Koyambedu Market'', ''Chennai Central Market'', ''Coimbatore Market'']),
      (''Punjab'', [''Ludhiana Market'', ''Amritsar Market'', ''Jalandhar Market'']),
      (''Haryana'', [''Gurgaon Market'', ''Faridabad Market'', ''Panipat Market''])]"

text \<open>
  The loop of the generator, from day \<open>i\<close> on; its state is the two trends and the number
  of \<open>Math.random()\<close> calls made.
  \<^verbatim>\<open>
  for (let i = 0; i < 30; i++) {
      const dayFactor = 1 + (Math.sin(i / 7) * 0.1);
      const randomFactor = 1 + (Math.random() - 0.5) * cropData.volatility;
      const demand = Math.round(baseDemand * dayFactor * randomFactor);
      const price = Math.round(basePrice * randomFactor * 100) / 100;
      demandTrend['30day'].push(demand);
      priceTrend['30day'].push(price);
      if (i < 14) { demandTrend['14day'].push(demand); priceTrend['14day'].push(price); }
      if (i < 7) { demandTrend['7day'].push(demand); priceTrend['7day'].push(price); }
  }
  \<close>
\<close>

function mockLoop ::
  "platform \<Rightarrow> cropParams \<Rightarrow> number \<Rightarrow> nat \<Rightarrow> number trend \<times> number trend \<times> nat
     \<Rightarrow> number trend \<times> number trend \<times> nat" where
  "mockLoop P cropData baseDemand i (demandTrend, priceTrend, k) =
     (if i < 30 then
        let dayFactor = Num (1 + sin (real i / 7) * 0.1);
            randomFactor = nadd (Num 1) (nmul (Num (mathRandom P k - 0.5)) (volatility cropData));
            demand = nround (nmul (nmul baseDemand dayFactor) randomFactor);
            price = ndiv (nround (nmul (nmul (basePrice cropData) randomFactor) (Num 100))) 100;
            demandTrend30 = demandTrend\<lparr>day30 := day30 demandTrend @ [demand]\<rparr>;
            priceTrend30 = priceTrend\<lparr>day30 := day30 priceTrend @ [price]\<rparr>;
            demandTrend14 =
              (if i < 14 then demandTrend30\<lparr>day14 := day14 demandTrend30 @ [demand]\<rparr>
               else demandTrend30);
            priceTrend14 =
              (if i < 14 then priceTrend30\<lparr>day14 := day14 priceTrend30 @ [price]\<rparr>
               else priceTrend30);
            demandTrend7 =
              (if i < 7 then demandTrend14\<lparr>day7 := day7 demandTrend14 @ [demand]\<rparr>
               else demandTrend14);
            priceTrend7 =
              (if i < 7 then priceTrend14\<lparr>day7 := day7 priceTrend14 @ [price]\<rparr>
               else priceTrend14)
        in mockLoop P cropData baseDemand (i + 1) (demandTrend7, priceTrend7, k + 1)
      else (demandTrend, priceTrend, k))"
  by pat_completeness auto
termination
  by (relation "measure (\<lambda>(P, cropData, baseDemand, i, s). 30 - i)") auto

declare mockLoop.simps [simp del]

text \<open>\<open>q || d\<close> for a quantity \<open>q\<close> that is a number or \<open>undefined\<close>: \<open>undefined\<close> and zero
  are falsy.\<close>

definition orDefault :: "real option \<Rightarrow> real \<Rightarrow> real" where
  "orDefault q d = (case q of None \<Rightarrow> d | Some x \<Rightarrow> if x = 0 then d else x)"

text \<open>
  The request, and the forecast object. The two generators fill the same properties with
  values of different kinds (the mock with numbers and texts it computed, the reshaped
  reply with whatever the model sent), so the record is polymorphic in them: \<open>'n\<close> the
  entries of a trend, \<open>'v\<close> the two dates, \<open>'q\<close> the recommended quantity, \<open>'m\<close> the
  suggested markets. The quantity of a request is a number or \<open>undefined\<close>; the mock
  forecast's quantity is always a number (\<open>Some\<close>).
\<close>

record inputData =
  crop :: string
  district :: string
  season :: string
  quantity :: "real option"

record ('n, 'v, 'q, 'm) forecast = inputData +
  success :: bool
  demandTrend :: "'n trend"
  priceTrend :: "'n trend"
  glutRisk :: string
  optimalPlantingTime :: 'v
  optimalSellingTime :: 'v
  recommendedQuantity :: 'q
  suggestedMarkets :: 'm
  marketHeatmap :: "marketRecord list"
  source :: string

type_synonym mockForecast = "(number, string, number, string list) forecast"

text \<open>\<open>crops[inputData.crop] || crops['Rice']\<close>\<close>

definition cropDataFor :: "string \<Rightarrow> cropParams" where
  "cropDataFor c =
     (case objectLookup crops c of
        Own p \<Rightarrow> p
      | Inherited \<Rightarrow> \<lparr>basePrice = NaN, volatility = NaN, demandMultiplier = NaN\<rparr>
      | Absent \<Rightarrow> riceParams)"

text \<open>\<open>marketsByDistrict[inputData.district] || marketsByDistrict['Karnataka']\<close>; \<open>None\<close>
  is an inherited value, which is no list of names.\<close>

definition suggestedMarketsFor :: "string \<Rightarrow> string list option" where
  "suggestedMarketsFor d =
     (case objectLookup marketsByDistrict d of
        Own ms \<Rightarrow> Some ms
      | Inherited \<Rightarrow> None
      | Absent \<Rightarrow> Some karnatakaMarkets)"

text \<open>\<open>{ '7day': [], '14day': [], '30day': [] }\<close>\<close>

definition emptyTrend :: "'a trend" where
  "emptyTrend = \<lparr>day7 = [], day14 = [], day30 = []\<rparr>"

text \<open>
  \<^verbatim>\<open>
  generateMockForecast(inputData) {
      const crops = { 'Rice': { basePrice: 25, volatility: 0.1, demandMultiplier: 1.2 }, ... };
      const cropData = crops[inputData.crop] || crops['Rice'];
      const baseQuantity = inputData.quantity || 100;
      const demandTrend = { '7day': [], '14day': [], '30day': [] };
      const priceTrend = { '7day': [], '14day': [], '30day': [] };
      const baseDemand = Math.round(baseQuantity * cropData.demandMultiplier);
      const basePrice = cropData.basePrice;
      for (...) { ... }
      const avgDemand = demandTrend['30day'].reduce((a, b) => a + b, 0) / 30;
      let glutRisk = 'low';
      if (baseQuantity > avgDemand * 1.5) glutRisk = 'high';
      else if (baseQuantity > avgDemand * 1.2) glutRisk = 'medium';
      const marketsByDistrict = { 'Karnataka': [...], ... };
      const suggestedMarkets = marketsByDistrict[inputData.district] ||
          marketsByDistrict['Karnataka'];
      const today = new Date();
      const plantingDate = new Date(today);
      plantingDate.setDate(today.getDate() + 7);
      const sellingDate = new Date(plantingDate);
      sellingDate.setDate(plantingDate.getDate() + 90);
      return {
          success: true, crop: inputData.crop, district: inputData.district,
          season: inputData.season, quantity: baseQuantity,
          demandTrend: demandTrend, priceTrend: priceTrend, glutRisk: glutRisk,
          optimalPlantingTime: plantingDate.toISOString().split('T')[0],
          optimalSellingTime: sellingDate.toISOString().split('T')[0],
          recommendedQuantity: Math.round(avgDemand * 0.9),
          suggestedMarkets: suggestedMarkets,
          actionSummary: `... ${suggestedMarkets.slice(0, 2).join(' and ')} ...`,
          recommendations: [...],
          marketHeatmap: this.generateMarketHeatmap(suggestedMarkets),
          timestamp: new Date().toISOString(), source: 'mock-data'
      };
  }
  \<close>
  A crop name inherited from \<open>Object.prototype\<close> finds a value without the three
  parameters: they are \<open>undefined\<close>, \<open>NaN\<close> in arithmetic. A district name inherited
  from \<open>Object.prototype\<close> finds a value that has no method \<open>slice\<close>, and
  \<open>suggestedMarkets.slice(0, 2)\<close> throws a \<open>TypeError\<close>. \<open>toISOString\<close> throws a
  \<open>RangeError\<close> for an invalid date.
\<close>

definition generateMockForecast ::
  "platform \<Rightarrow> inputData \<Rightarrow> nat \<Rightarrow> error + (mockForecast \<times> nat)" where
  "generateMockForecast P inputData k =
     (let cropData = cropDataFor (crop inputData);
          baseQuantity = orDefault (quantity inputData) 100;
          baseDemand = nround (nmul (Num baseQuantity) (demandMultiplier cropData));
          (demandTrend, priceTrend, k1) =
            mockLoop P cropData baseDemand 0 (emptyTrend, emptyTrend, k);
          avgDemand = ndiv (nsum (day30 demandTrend)) 30;
          glutRisk =
            (if ngt (Num baseQuantity) (nmul avgDemand (Num 1.5)) then ''high''
             else if ngt (Num baseQuantity) (nmul avgDemand (Num 1.2)) then ''medium''
             else ''low'');
          suggestedMarkets = suggestedMarketsFor (district inputData);
          today = dateNow P;
          plantingDate = setDate P today (getDate P today + 7);
          sellingDate =
            (case plantingDate of
               None \<Rightarrow> None
             | Some planting \<Rightarrow> setDate P planting (getDate P planting + 90))
      in andThen (case plantingDate of None \<Rightarrow> Inl RangeError | Some t \<Rightarrow> Inr (isoDate t))
           (\<lambda>optimalPlantingTime.
         andThen (case sellingDate of None \<Rightarrow> Inl RangeError | Some t \<Rightarrow> Inr (isoDate t))
           (\<lambda>optimalSellingTime.
         andThen (case suggestedMarkets of None \<Rightarrow> Inl TypeError | Some ms \<Rightarrow> Inr ms)
           (\<lambda>marketNames.
         andThen (generateMarketHeatmap P (map JStr marketNames) k1) (\<lambda>(heatmapData, k2).
           Inr (\<lparr>crop = crop inputData, district = district inputData,
                  season = season inputData, quantity = Some baseQuantity,
                  success = True,
                  demandTrend = demandTrend,
                  priceTrend = priceTrend,
                  glutRisk = glutRisk,
                  optimalPlantingTime = optimalPlantingTime,
                  optimalSellingTime = optimalSellingTime,
                  recommendedQuantity = nround (nmul avgDemand (Num 0.9)),
                  suggestedMarkets = marketNames,
                  marketHeatmap = heatmapData,
                  source = ''mock-data''\<rparr>, k2))))))"

subsection \<open>Reshaping the validated reply (formatForecastResponse)\<close>

text \<open>\<open>toLowerCase\<close>, among the code units below 256.\<close>

definition toLowerChar :: "char \<Rightarrow> char" where
  "toLowerChar c =
     (let n = (of_char c :: nat)
      in if (65 \<le> n \<and> n \<le> 90) \<or> (192 \<le> n \<and> n \<le> 222 \<and> n \<noteq> 215)
         then char_of (n + 32) else c)"

definition toLowerCase :: "string \<Rightarrow> string" where
  "toLowerCase s = map toLowerChar s"

text \<open>\<open>items.map(item => item.key)\<close>\<close>

fun mapProp :: "string \<Rightarrow> json list \<Rightarrow> error + json option list" where
  "mapProp key [] = Inr []"
| "mapProp key (item # items) =
     andThen (getProp item key) (\<lambda>v. andThen (mapProp key items) (\<lambda>vs. Inr (v # vs)))"

text \<open>The text of a value in a template literal, and the primitive that \<open>new Date(v)\<close>
  converts \<open>v\<close> to: both throw exactly when \<open>ToString\<close> does.\<close>

definition toText :: "platform \<Rightarrow> json option \<Rightarrow> error + string" where
  "toText P v =
     (case v of None \<Rightarrow> Inr ''undefined'' | Some j \<Rightarrow> jsToString (numberToString P) j)"

record aiForecast = "(json option, json option, json option, json option) forecast" +
  actionSummary :: "json option"
  markets :: "marketRecord list"

text \<open>
  \<^verbatim>\<open>
  formatForecastResponse(aiData, inputData) {
      const demandTrend = {
          '7day': aiData.forecast_trend.slice(0, 7).map(item => item.expected_demand_kg),
          '14day': aiData.forecast_trend.slice(0, 14).map(item => item.expected_demand_kg),
          '30day': aiData.forecast_trend.map(item => item.expected_demand_kg)
      };
      const priceTrend = { ... item.expected_price_per_kg ... };
      return {
          success: true, crop: inputData.crop, district: inputData.district,
          season: inputData.season, quantity: inputData.quantity,
          demandTrend: demandTrend, priceTrend: priceTrend,
          glutRisk: aiData.glut_risk.toLowerCase(),
          optimalPlantingTime: aiData.optimal_planting_time,
          optimalSellingTime: aiData.optimal_selling_time,
          recommendedQuantity: aiData.recommended_quantity_kg,
          suggestedMarkets: aiData.suggested_markets,
          actionSummary: aiData.action_summary,
          recommendations: {
              sowingTime: `... ${new Date(aiData.optimal_planting_time).toLocaleDateString()}`,
              sellingTime: `... ${new Date(aiData.optimal_selling_time).toLocaleDateString()}`,
              marketStrategy: aiData.action_summary,
              actions: [ ..., `... ${aiData.recommended_quantity_kg} kg`,
                  `... ${aiData.suggested_markets.join(', ')}`, `... ${aiData.glut_risk}` ]
          },
          markets: this.generateMarketHeatmap(aiData.suggested_markets),
          marketHeatmap: this.generateMarketHeatmap(aiData.suggested_markets),
          metadata: { ... }, timestamp: ..., source: 'gemini-ai'
      };
  }
  \<close>
  Every exception here is a \<open>TypeError\<close>: a property of \<open>null\<close>, \<open>slice\<close>, \<open>map\<close>,
  \<open>toLowerCase\<close> or \<open>join\<close> of a value that has no such method, the text of an object
  that has none.
\<close>

definition formatForecastResponse ::
  "platform \<Rightarrow> json \<Rightarrow> inputData \<Rightarrow> nat \<Rightarrow> error + (aiForecast \<times> nat)" where
  "formatForecastResponse P aiData inputData k =
     andThen (getProp aiData ''forecast_trend'') (\<lambda>forecast_trend.
     andThen (case forecast_trend of Some (JArr items) \<Rightarrow> Inr items | _ \<Rightarrow> Inl TypeError)
       (\<lambda>items.
     andThen (mapProp ''expected_demand_kg'' (take 7 items)) (\<lambda>demand7.
     andThen (mapProp ''expected_demand_kg'' (take 14 items)) (\<lambda>demand14.
     andThen (mapProp ''expected_demand_kg'' items) (\<lambda>demand30.
     andThen (mapProp ''expected_price_per_kg'' (take 7 items)) (\<lambda>price7.
     andThen (mapProp ''expected_price_per_kg'' (take 14 items)) (\<lambda>price14.
     andThen (mapProp ''expected_price_per_kg'' items) (\<lambda>price30.
     andThen (getProp aiData ''glut_risk'') (\<lambda>glut_risk.
     andThen (case glut_risk of Some (JStr s) \<Rightarrow> Inr (toLowerCase s) | _ \<Rightarrow> Inl TypeError)
       (\<lambda>riskLabel.
     andThen (getProp aiData ''optimal_planting_time'') (\<lambda>optimal_planting_time.
     andThen (getProp aiData ''optimal_selling_time'') (\<lambda>optimal_selling_time.
     andThen (getProp aiData ''recommended_quantity_kg'') (\<lambda>recommended_quantity_kg.
     andThen (getProp aiData ''suggested_markets'') (\<lambda>suggested_markets.
     andThen (getProp aiData ''action_summary'') (\<lambda>action_summary.
     andThen (toText P optimal_planting_time) (\<lambda>_.
     andThen (toText P optimal_selling_time) (\<lambda>_.
     andThen (toText P recommended_quantity_kg) (\<lambda>_.
     andThen (case suggested_markets of Some (JArr names) \<Rightarrow> Inr names | _ \<Rightarrow> Inl TypeError)
       (\<lambda>names.
     andThen (elementTexts (numberToString P) names) (\<lambda>_.
     andThen (generateMarketHeatmap P names k) (\<lambda>(marketData, k1).
     andThen (generateMarketHeatmap P names k1) (\<lambda>(heatmapData, k2).
       Inr (\<lparr>crop = crop inputData, district = district inputData,
              season = season inputData, quantity = quantity inputData,
              success = True,
              demandTrend = \<lparr>day7 = demand7, day14 = demand14, day30 = demand30\<rparr>,
              priceTrend = \<lparr>day7 = price7, day14 = price14, day30 = price30\<rparr>,
              glutRisk = riskLabel,
              optimalPlantingTime = optimal_planting_time,
              optimalSellingTime = optimal_selling_time,
              recommendedQuantity = recommended_quantity_kg,
              suggestedMarkets = suggested_markets,
              marketHeatmap = heatmapData,
              source = ''gemini-ai'',
              actionSummary = action_summary,
              markets = marketData\<rparr>, k2)))))))))))))))))))))))"

subsection \<open>The orchestrator (init, generateForecast)\<close>

text \<open>
  \<open>init\<close> sets \<open>isAvailable\<close>: true when \<open>GEMINI_API_KEY\<close> is set to a non-empty text and
  the client's constructor does not throw.
\<close>

definition init :: "string option \<Rightarrow> bool \<Rightarrow> bool" where
  "init apiKey clientConstructs =
     (case apiKey of None \<Rightarrow> False | Some key \<Rightarrow> if key = [] then False else clientConstructs)"

text \<open>
  The asynchronous part of \<open>generateForecast\<close> (the streamed request raced against the
  15-second timer) settles either with the accumulated text or with an exception; that
  outcome is the argument \<open>fullResponse\<close>. A timeout is
  \<open>Inl (Error ''AI request timeout after 15 seconds'')\<close>.
  \<^verbatim>\<open>
  async generateForecast(inputData) {
      if (!this.isAvailable) { return this.generateMockForecast(inputData); }
      try {
          ...
          const fullResponse = await Promise.race([aiPromise, timeoutPromise]);
          const cleanedResponse = this.cleanJsonResponse(fullResponse);
          const forecastData = JSON.parse(cleanedResponse);
          this.validateForecastData(forecastData);
          return this.formatForecastResponse(forecastData, inputData);
      } catch (error) {
          // Always return mock data on error to ensure the app works
          return this.generateMockForecast(inputData);
      }
  }
  \<close>
\<close>

datatype forecastResult = MockForecast mockForecast | AIForecast aiForecast

definition normalizeResponse ::
  "platform \<Rightarrow> string \<Rightarrow> inputData \<Rightarrow> nat \<Rightarrow> error + (aiForecast \<times> nat)" where
  "normalizeResponse P fullResponse inputData k =
     (let cleanedResponse = cleanJsonResponse fullResponse
      in case jsonParse P cleanedResponse of
           None \<Rightarrow> Inl SyntaxError
         | Some forecastData \<Rightarrow>
             andThen (validateForecastData forecastData) (\<lambda>_.
               formatForecastResponse P forecastData inputData k))"

definition generateForecast ::
  "platform \<Rightarrow> bool \<Rightarrow> error + string \<Rightarrow> inputData \<Rightarrow> nat
     \<Rightarrow> error + (forecastResult \<times> nat)" where
  "generateForecast P isAvailable fullResponse inputData k =
     (if \<not> isAvailable
      then andThen (generateMockForecast P inputData k) (\<lambda>(f, k1). Inr (MockForecast f, k1))
      else
        (case andThen fullResponse (\<lambda>text. normalizeResponse P text inputData k) of
           Inr (f, k1) \<Rightarrow> Inr (AIForecast f, k1)
         | Inl e \<Rightarrow>
             andThen (generateMockForecast P inputData k) (\<lambda>(f, k1). Inr (MockForecast f, k1))))"

subsection \<open>Volatility of a price series (calculateVolatility)\<close>




subsection \<open>Notions used in the statements\<close>

text \<open>A property of a parsed value, \<open>undefined\<close> also where reading it throws.\<close>

definition field :: "json \<Rightarrow> string \<Rightarrow> json option" where
  "field data key = (case getProp data key of Inr v \<Rightarrow> v | Inl e \<Rightarrow> None)"

text \<open>The three permitted labels of \<open>glut_risk\<close>.\<close>

definition riskLabels :: "json option set" where
  "riskLabels = {Some (JStr ''Low''), Some (JStr ''Medium''), Some (JStr ''High'')}"

text \<open>
  The conditions under which the specification says validation fails, read literally:
  a field is missing (the property is \<open>undefined\<close>), the trend array is empty, or the
  risk value is not one of the three labels.
\<close>

definition specRejects :: "json \<Rightarrow> bool" where
  "specRejects data =
     (field data ''forecast_trend'' = None \<or> field data ''glut_risk'' = None
      \<or> field data ''forecast_trend'' = Some (JArr [])
      \<or> field data ''glut_risk'' \<notin> riskLabels)"

text \<open>The test of \<open>cleanJsonResponse\<close>: there is a \<open>{\<close>, and the last \<open>}\<close> comes after the
  first \<open>{\<close>.\<close>

definition hasBracePair :: "string \<Rightarrow> bool" where
  "hasBracePair s =
     (case (indexOf CHR ''{'' s, lastIndexOf CHR ''}'' s) of
        (Some i, Some j) \<Rightarrow> i < j
      | _ \<Rightarrow> False)"

text \<open>A computation whose only exception is a \<open>TypeError\<close>.\<close>

definition typeErrorOnly :: "error + 'a \<Rightarrow> bool" where
  "typeErrorOnly r = (case r of Inl e \<Rightarrow> e = TypeError | Inr x \<Rightarrow> True)"

text \<open>The loop invariant of the generator after \<open>i\<close> days: the 30-day list has \<open>i\<close>
  entries, and the other two lists are its first 14 and its first 7.\<close>

definition windowsOf :: "nat \<Rightarrow> 'a trend \<Rightarrow> bool" where
  "windowsOf i t =
     (length (day30 t) = i \<and> day14 t = take 14 (day30 t) \<and> day7 t = take 7 (day30 t))"


text \<open>What \<open>generateMarketHeatmap\<close> gives a market of a given name as coordinates.\<close>

definition coordinatesFor :: "platform \<Rightarrow> string \<Rightarrow> marketRecord \<Rightarrow> bool" where
  "coordinatesFor P market r =
     (case objectLookup baseCoordinates market of
        Own (la, lo) \<Rightarrow> lat r = Some la \<and> lng r = Some lo
      | Inherited \<Rightarrow> lat r = None \<and> lng r = None
      | Absent \<Rightarrow>
          (\<exists>j. lat r = Some (12.9716 + (mathRandom P j - 0.5) * 2)
              \<and> lng r = Some (77.5946 + (mathRandom P (j + 1) - 0.5) * 2)))"

text \<open>The clock is far enough from the ends of the time range for the two dates of the
  mock forecast to be valid.\<close>

definition clockInRange :: "platform \<Rightarrow> bool" where
  "clockInRange P =
     (\<bar>dateNow P + 7 * msPerDay\<bar> \<le> 8640000000000000
      \<and> \<bar>dateNow P + 97 * msPerDay\<bar> \<le> 8640000000000000)"

text \<open>
  A reply in the schema that the prompt asks for: an object whose \<open>forecast_trend\<close> is a
  non-empty array of objects with a date and two numbers, \<open>glut_risk\<close> one of the three
  labels, the two dates and the summary texts, the quantity a number, and
  \<open>suggested_markets\<close> an array of texts.
\<close>

fun isString :: "json option \<Rightarrow> bool" where
  "isString (Some (JStr s)) = True"
| "isString _ = False"

fun isNumber :: "json option \<Rightarrow> bool" where
  "isNumber (Some (JNum x)) = True"
| "isNumber _ = False"

fun isStringArray :: "json option \<Rightarrow> bool" where
  "isStringArray (Some (JArr xs)) = list_all (\<lambda>x. isString (Some x)) xs"
| "isStringArray _ = False"

definition validTrendItem :: "json \<Rightarrow> bool" where
  "validTrendItem item =
     (item \<noteq> JNull \<and> isString (field item ''date'')
      \<and> isNumber (field item ''expected_demand_kg'')
      \<and> isNumber (field item ''expected_price_per_kg''))"

definition validAISchema :: "json \<Rightarrow> bool" where
  "validAISchema data =
     (data \<noteq> JNull
      \<and> (case field data ''forecast_trend'' of
            Some (JArr items) \<Rightarrow> items \<noteq> [] \<and> list_all validTrendItem items
          | _ \<Rightarrow> False)
      \<and> field data ''glut_risk'' \<in> riskLabels
      \<and> isString (field data ''optimal_planting_time'')
      \<and> isString (field data ''optimal_selling_time'')
      \<and> isNumber (field data ''recommended_quantity_kg'')
      \<and> isStringArray (field data ''suggested_markets'')
      \<and> isString (field data ''action_summary''))"

subsection \<open>Examples\<close>

text \<open>A reply of ten days, as parsed.\<close>

definition exampleReply :: json where
  "exampleReply =
     JObj [(''forecast_trend'',
              JArr (map (\<lambda>n. JObj [(''date'', JStr ''2026-11-03''),
                                    (''expected_demand_kg'', JNum (100 + real n)),
                                    (''expected_price_per_kg'', JNum 25)]) [0 ..< 10])),
           (''glut_risk'', JStr ''Medium''),
           (''optimal_planting_time'', JStr ''2026-11-10''),
           (''optimal_selling_time'', JStr ''2027-02-08''),
           (''recommended_quantity_kg'', JNum 90),
           (''suggested_markets'', JArr [JStr ''KR Market'', JStr ''Mysore Market'']),
           (''action_summary'', JStr ''Plant in early November.'')]"

text \<open>A reply of one day as the text of a JSON object (\<open>quoted s\<close> is \<open>s\<close> in double
  quotes), and the value that \<open>JSON.parse\<close> reads from it.\<close>

definition quoted :: "string \<Rightarrow> string" where
  "quoted s = [CHR 0x22] @ s @ [CHR 0x22]"

definition exampleText :: string where
  "exampleText =
     ''{'' @ quoted ''forecast_trend'' @ '':[{'' @ quoted ''date'' @ '':''
       @ quoted ''2026-11-03'' @ '','' @ quoted ''expected_demand_kg'' @ '':100,''
       @ quoted ''expected_price_per_kg'' @ '':25}],''
     @ quoted ''glut_risk'' @ '':'' @ quoted ''Low'' @ '',''
     @ quoted ''optimal_planting_time'' @ '':'' @ quoted ''2026-11-10'' @ '',''
     @ quoted ''optimal_selling_time'' @ '':'' @ quoted ''2027-02-08'' @ '',''
     @ quoted ''recommended_quantity_kg'' @ '':90,''
     @ quoted ''suggested_markets'' @ '':['' @ quoted ''KR Market'' @ ''],''
     @ quoted ''action_summary'' @ '':'' @ quoted ''Plant in early November.'' @ ''}''"

definition exampleTextParsed :: json where
  "exampleTextParsed =
     JObj [(''forecast_trend'',
              JArr [JObj [(''date'', JStr ''2026-11-03''),
                          (''expected_demand_kg'', JNum 100),
                          (''expected_price_per_kg'', JNum 25)]]),
           (''glut_risk'', JStr ''Low''),
           (''optimal_planting_time'', JStr ''2026-11-10''),
           (''optimal_selling_time'', JStr ''2027-02-08''),
           (''recommended_quantity_kg'', JNum 90),
           (''suggested_markets'', JArr [JStr ''KR Market'']),
           (''action_summary'', JStr ''Plant in early November.'')]"

text \<open>
  A platform for the examples: every random draw is 1/2, the clock reads
  2026-11-02T00:00:00Z, local time is UTC+05:30, and the parser reads two texts as
  \<open>JSON.parse\<close> does: \<open>42\<close>, the number 42, and \<open>exampleText\<close>.
\<close>

definition examplePlatform :: platform where
  "examplePlatform =
     \<lparr>mathRandom = (\<lambda>k. 1 / 2), dateNow = 1793577600000, localTZA = 19800000,
      jsonParse = (\<lambda>s. if s = ''42'' then Some (JNum 42)
                         else if s = exampleText then Some exampleTextParsed else None),
      numberToString = (\<lambda>x. ''0'')\<rparr>"

definition exampleRequest :: inputData where
  "exampleRequest =
     \<lparr>crop = ''Rice'', district = ''Karnataka'', season = ''Kharif'', quantity = Some 100\<rparr>"


text \<open>A request whose district names a property of \<open>Object.prototype\<close>.\<close>

definition inheritedRequest :: inputData where
  "inheritedRequest =
     \<lparr>crop = ''Rice'', district = ''constructor'', season = ''Kharif'', quantity = Some 100\<rparr>"

text \<open>The reply of the specification's example: prose, then the object in a fence.\<close>

definition fencedReply :: string where
  "fencedReply =
     ''Here you go:'' @ [CHR 0x0A] @ ''```json'' @ [CHR 0x0A] @ exampleText @ [CHR 0x0A] @ ''```''"

section \<open>Properties\<close>

subsection \<open>Exceptions\<close>

lemma andThen_Inr_iff:
  "(andThen r g = Inr y) = (\<exists>x. r = Inr x \<and> g x = Inr y)"
  by (cases r) simp_all

lemma typeErrorOnly_simps [simp]:
  "typeErrorOnly (Inl e) = (e = TypeError)" "typeErrorOnly (Inr x)"
  by (simp_all add: typeErrorOnly_def)

lemma typeErrorOnly_andThen:
  assumes "typeErrorOnly r" and "\<And>x. r = Inr x \<Longrightarrow> typeErrorOnly (g x)"
  shows "typeErrorOnly (andThen r g)"
  using assms by (cases r) simp_all

lemma typeErrorOnly_getProp: "typeErrorOnly (getProp v key)"
  by (cases v) simp_all

lemma typeErrorOnly_mapProp: "typeErrorOnly (mapProp key items)"
  by (induction items) (auto intro!: typeErrorOnly_andThen typeErrorOnly_getProp)

lemma typeErrorOnly_jsToString:
  "typeErrorOnly (jsToString nts v)"
  "typeErrorOnly (elementTexts nts vs)"
proof (induction nts v and nts vs rule: jsToString_elementTexts.induct)
  case (8 nts x xs)
  then show ?case by (cases "x = JNull") (auto split: sum.splits)
qed (auto split: sum.splits)

lemma typeErrorOnly_toText: "typeErrorOnly (toText P v)"
  by (cases v) (simp_all add: toText_def typeErrorOnly_jsToString)

lemma typeErrorOnly_marketHeatmapFrom: "typeErrorOnly (marketHeatmapFrom P names i k)"
proof (induction names arbitrary: i k)
  case Nil
  show ?case by simp
next
  case (Cons market rest)
  show ?case
    unfolding marketHeatmapFrom.simps Let_def
    by (intro typeErrorOnly_andThen typeErrorOnly_jsToString)
       (auto split: prod.splits intro!: typeErrorOnly_andThen Cons)
qed

lemma typeErrorOnly_generateMarketHeatmap: "typeErrorOnly (generateMarketHeatmap P names k)"
  by (simp add: generateMarketHeatmap_def typeErrorOnly_marketHeatmapFrom)

lemma typeErrorOnly_formatForecastResponse:
  "typeErrorOnly (formatForecastResponse P aiData inputData k)"
  unfolding formatForecastResponse_def
  by (intro typeErrorOnly_andThen typeErrorOnly_getProp typeErrorOnly_mapProp
        typeErrorOnly_toText typeErrorOnly_jsToString typeErrorOnly_generateMarketHeatmap)
     (auto split: option.splits json.splits prod.splits
        intro!: typeErrorOnly_andThen typeErrorOnly_generateMarketHeatmap)

subsection \<open>Validation\<close>

lemma getProp_not_null: "data \<noteq> JNull \<Longrightarrow> getProp data key = Inr (field data key)"
  by (cases data) (simp_all add: field_def)

lemma truthy_nonEmptyArray: "isNonEmptyArray v \<Longrightarrow> truthy v"
  by (cases v rule: isNonEmptyArray.cases) simp_all

lemma truthy_label: "v \<in> riskLabels \<Longrightarrow> truthy v"
  by (auto simp: riskLabels_def)

lemma validate_null: "validateForecastData JNull = Inl TypeError"
  by (simp add: validateForecastData_def)

lemma validate_not_null:
  assumes "data \<noteq> JNull"
  shows "validateForecastData data =
           (if \<not> truthy (field data ''forecast_trend'')
            then Inl (Error ''Missing required field: forecast_trend'')
            else if \<not> truthy (field data ''glut_risk'')
            then Inl (Error ''Missing required field: glut_risk'')
            else if \<not> isNonEmptyArray (field data ''forecast_trend'')
            then Inl (Error ''forecast_trend must be a non-empty array'')
            else if field data ''glut_risk'' \<notin> riskLabels
            then Inl (Error ''glut_risk must be Low, Medium, or High'')
            else Inr ())"
  by (simp add: validateForecastData_def getProp_not_null [OF assms] riskLabels_def)

text \<open>
  C5 (as amended). Validation accepts exactly the values other than \<open>null\<close> whose
  \<open>forecast_trend\<close> is a non-empty array and whose \<open>glut_risk\<close> is one of the texts
  \<open>Low\<close>, \<open>Medium\<close>, \<open>High\<close> (matched exactly). Every other value is rejected: with an
  \<open>Error\<close> thrown by the validator (the specification's ValidationError) when the value
  is not \<open>null\<close>, with a \<open>TypeError\<close> when it is. So a trend field that is missing, falsy,
  not an array or an empty array is rejected, and so is a risk field that is missing or
  holds anything but one of the three labels.
\<close>

theorem validateForecastData_rejects:
  "(validateForecastData data = Inr ()) =
     (data \<noteq> JNull \<and> isNonEmptyArray (field data ''forecast_trend'')
      \<and> field data ''glut_risk'' \<in> riskLabels)
   \<and> (\<exists>msg. validateForecastData data = Inl (Error msg)) =
       (data \<noteq> JNull \<and> \<not> (isNonEmptyArray (field data ''forecast_trend'')
                            \<and> field data ''glut_risk'' \<in> riskLabels))
   \<and> (validateForecastData data = Inl TypeError) = (data = JNull)"
proof (cases "data = JNull")
  case True
  then show ?thesis by (simp add: validate_null)
next
  case False
  then show ?thesis
    using truthy_nonEmptyArray [of "field data ''forecast_trend''"]
      truthy_label [of "field data ''glut_risk''"]
    by (auto simp: validate_not_null)
qed

text \<open>The three rejections that the specification lists.\<close>

lemma validateForecastData_examples:
  "validateForecastData (JObj [(''forecast_trend'', JArr [JNull])])
     = Inl (Error ''Missing required field: glut_risk'')"
  "validateForecastData (JObj [(''forecast_trend'', JArr [JNull]), (''glut_risk'', JStr ''Extreme'')])
     = Inl (Error ''glut_risk must be Low, Medium, or High'')"
  "validateForecastData (JObj [(''forecast_trend'', JArr []), (''glut_risk'', JStr ''Low'')])
     = Inl (Error ''forecast_trend must be a non-empty array'')"
  "validateForecastData (JObj [(''forecast_trend'', JArr [JNull]), (''glut_risk'', JStr ''low'')])
     = Inl (Error ''glut_risk must be Low, Medium, or High'')"
  by (simp_all add: validateForecastData_def)

text \<open>
  The claim as written says "exactly when". A reply whose \<open>forecast_trend\<close> is an object
  keyed by date has both fields, no empty array and a permitted label, and is rejected.
\<close>

theorem validateForecastData_non_array_counterexample:
  "\<not> specRejects (JObj [(''forecast_trend'', JObj [(''2026-11-03'', JNum 100)]),
                        (''glut_risk'', JStr ''Low'')])
   \<and> validateForecastData (JObj [(''forecast_trend'', JObj [(''2026-11-03'', JNum 100)]),
                                 (''glut_risk'', JStr ''Low'')])
       = Inl (Error ''forecast_trend must be a non-empty array'')"
  by (simp add: specRejects_def field_def riskLabels_def validateForecastData_def)

subsection \<open>Cleaning and parsing\<close>

lemma indexOf_Some:
  "indexOf c s = Some i \<Longrightarrow> i < length s \<and> s ! i = c \<and> c \<notin> set (take i s)"
proof (induction s arbitrary: i)
  case Nil
  then show ?case by simp
next
  case (Cons x xs)
  show ?case
  proof (cases "x = c")
    case True
    with Cons.prems show ?thesis by simp
  next
    case False
    with Cons.prems obtain i' where i': "indexOf c xs = Some i'" "i = Suc i'"
      by auto
    from Cons.IH [OF i'(1)] False i'(2) show ?thesis by simp
  qed
qed

lemma lastIndexOf_Some:
  assumes "lastIndexOf c s = Some j"
  shows "j < length s \<and> s ! j = c \<and> c \<notin> set (drop (Suc j) s)"
proof -
  from assms obtain i where i: "indexOf c (rev s) = Some i" "j = length s - 1 - i"
    by (auto simp: lastIndexOf_def)
  from indexOf_Some [OF i(1)]
  have il: "i < length s" and at: "rev s ! i = c" and notin: "c \<notin> set (take i (rev s))"
    by simp_all
  from il i(2) have jl: "j < length s" by simp
  from il i(2) at have "s ! j = c" by (simp add: rev_nth)
  moreover have "take i (rev s) = rev (drop (length s - i) s)"
    by (simp add: take_rev)
  moreover from il i(2) have "length s - i = Suc j" by simp
  ultimately show ?thesis using jl notin by simp
qed

lemma slice_parts:
  assumes "i < j" "j < length s"
  shows "s = take i s @ substring s i (j + 1) @ drop (Suc j) s"
proof -
  have "drop i s = take (j + 1 - i) (drop i s) @ drop (j + 1 - i) (drop i s)"
    by (rule append_take_drop_id [symmetric])
  moreover have "drop (j + 1 - i) (drop i s) = drop (Suc j) s"
    using assms by simp
  ultimately have "drop i s = substring s i (j + 1) @ drop (Suc j) s"
    by (simp add: substring_def)
  then show ?thesis
    by (metis append_take_drop_id)
qed

lemma cleanJsonResponse_slice:
  assumes "hasBracePair (stripFences (trim response))"
  shows "\<exists>before after.
           stripFences (trim response) = before @ cleanJsonResponse response @ after
           \<and> CHR ''{'' \<notin> set before \<and> CHR ''}'' \<notin> set after
           \<and> hd (cleanJsonResponse response) = CHR ''{''
           \<and> last (cleanJsonResponse response) = CHR ''}''"
proof -
  let ?s = "stripFences (trim response)"
  from assms obtain i j where
    ij: "indexOf CHR ''{'' ?s = Some i" "lastIndexOf CHR ''}'' ?s = Some j" "i < j"
    by (auto simp: hasBracePair_def split: option.splits)
  from indexOf_Some [OF ij(1)]
  have i: "i < length ?s" "?s ! i = CHR ''{''" "CHR ''{'' \<notin> set (take i ?s)"
    by simp_all
  from lastIndexOf_Some [OF ij(2)]
  have j: "j < length ?s" "?s ! j = CHR ''}''" "CHR ''}'' \<notin> set (drop (Suc j) ?s)"
    by simp_all
  have c: "cleanJsonResponse response = substring ?s i (j + 1)"
    using ij by (simp add: cleanJsonResponse_def Let_def)
  have parts: "?s = take i ?s @ cleanJsonResponse response @ drop (Suc j) ?s"
    unfolding c by (rule slice_parts [OF ij(3) j(1)])
  have h: "hd (substring ?s i (j + 1)) = CHR ''{''"
    using ij(3) i j(1) by (simp add: substring_def hd_drop_conv_nth)
  have "last (substring ?s i (j + 1)) = ?s ! j"
  proof -
    have "substring ?s i (j + 1) = take (Suc (j - i)) (drop i ?s)"
      using ij(3) by (simp add: substring_def Suc_diff_le)
    also have "\<dots> = take (j - i) (drop i ?s) @ [drop i ?s ! (j - i)]"
      using ij(3) j(1) by (simp add: take_Suc_conv_app_nth)
    finally show ?thesis using ij(3) j(1) by simp
  qed
  with j(2) have l: "last (substring ?s i (j + 1)) = CHR ''}''" by simp
  from parts i(3) j(3) h l c show ?thesis by metis
qed

lemma cleanJsonResponse_whole:
  assumes "\<not> hasBracePair (stripFences (trim response))"
  shows "cleanJsonResponse response = stripFences (trim response)"
  using assms
  by (auto simp: cleanJsonResponse_def hasBracePair_def Let_def split: option.splits)

lemma validateForecastData_no_SyntaxError: "validateForecastData data \<noteq> Inl SyntaxError"
  by (cases "data = JNull") (auto simp: validate_null validate_not_null)

lemma normalizeResponse_SyntaxError:
  "(normalizeResponse P response inputData k = Inl SyntaxError)
     = (jsonParse P (cleanJsonResponse response) = None)"
proof (cases "jsonParse P (cleanJsonResponse response)")
  case None
  then show ?thesis by (simp add: normalizeResponse_def)
next
  case (Some data)
  have "formatForecastResponse P data inputData k \<noteq> Inl SyntaxError"
    using typeErrorOnly_formatForecastResponse [of P data inputData k] by auto
  with Some validateForecastData_no_SyntaxError [of data] show ?thesis
    by (cases "validateForecastData data") (auto simp: normalizeResponse_def)
qed

text \<open>
  C6 (as amended). The reply is trimmed and every code-fence marker is removed. If the
  text then has a \<open>{\<close> and its last \<open>}\<close> comes later, the text handed to the parser is the
  part from the first \<open>{\<close> to the last \<open>}\<close>, both included; otherwise it is the whole
  cleaned text: there is no failure for a missing pair of braces. Normalization fails
  with the parser's \<open>SyntaxError\<close> (the specification's MalformedResponse) exactly when
  the text handed to the parser does not parse.
\<close>

theorem cleanJsonResponse_normalize:
  "(if hasBracePair (stripFences (trim response))
    then (\<exists>before after.
            stripFences (trim response) = before @ cleanJsonResponse response @ after
            \<and> CHR ''{'' \<notin> set before \<and> CHR ''}'' \<notin> set after
            \<and> hd (cleanJsonResponse response) = CHR ''{''
            \<and> last (cleanJsonResponse response) = CHR ''}'')
    else cleanJsonResponse response = stripFences (trim response))
   \<and> (normalizeResponse P response inputData k = Inl SyntaxError)
       = (jsonParse P (cleanJsonResponse response) = None)"
  using cleanJsonResponse_slice [of response] cleanJsonResponse_whole [of response]
    normalizeResponse_SyntaxError [of P response inputData k]
  by simp

text \<open>The fenced reply with leading prose is cleaned to the enclosed object.\<close>

lemma cleanJsonResponse_fencedReply: "cleanJsonResponse fencedReply = exampleText"
  by (simp add: cleanJsonResponse_def fencedReply_def exampleText_def quoted_def trim_def
      isWhiteSpace_def stripFences_def lastIndexOf_def substring_def)

text \<open>
  The claim as written makes a text without a pair of braces fail as MalformedResponse.
  The reply \<open>42\<close> has no brace; it is handed to the parser unchanged, parses, and is then
  rejected by the validator.
\<close>

theorem normalizeResponse_braceless_counterexample:
  "\<not> hasBracePair (stripFences (trim ''42''))
   \<and> cleanJsonResponse ''42'' = ''42''
   \<and> jsonParse examplePlatform ''42'' = Some (JNum 42)
   \<and> normalizeResponse examplePlatform ''42'' exampleRequest 0
       = Inl (Error ''Missing required field: forecast_trend'')"
  by (simp add: hasBracePair_def normalizeResponse_def validateForecastData_def
      examplePlatform_def cleanJsonResponse_def trim_def isWhiteSpace_def stripFences_def
      lastIndexOf_def substring_def)

subsection \<open>The market heatmap\<close>

lemma marketHeatmapFrom_strings:
  "\<exists>entries k'. marketHeatmapFrom P (map JStr names) i k = Inr (entries, k')
     \<and> map name entries = map JStr names
     \<and> list_all (\<lambda>r. demand r = ''high'') entries
     \<and> map risk entries =
          (case names of [] \<Rightarrow> []
           | first # others \<Rightarrow>
               (if i = 0 then ''low'' else ''medium'') # replicate (length others) ''medium'')
     \<and> list_all2 (coordinatesFor P) names entries"
proof (induction names arbitrary: i k)
  case Nil
  show ?case by simp
next
  case (Cons market rest)
  obtain coords k1 where c:
    "(case objectLookup baseCoordinates market of
        Own (la, lo) \<Rightarrow> ((Some la, Some lo), k)
      | Inherited \<Rightarrow> ((None, None), k)
      | Absent \<Rightarrow>
          ((Some (12.9716 + (mathRandom P k - 0.5) * 2),
            Some (77.5946 + (mathRandom P (k + 1) - 0.5) * 2)), k + 2)) = (coords, k1)"
    by (metis surj_pair)
  let ?entry = "\<lparr>name = JStr market, lat = fst coords, lng = snd coords, demand = ''high'',
                 price = 25 + mathRandom P k1 * 15,
                 risk = (if i = 0 then ''low'' else ''medium'')\<rparr>"
  from Cons.IH [of "i + 1" "k1 + 1"] obtain entries k' where
    r: "marketHeatmapFrom P (map JStr rest) (i + 1) (k1 + 1) = Inr (entries, k')"
       "map name entries = map JStr rest"
       "list_all (\<lambda>r. demand r = ''high'') entries"
       "map risk entries =
          (case rest of [] \<Rightarrow> []
           | first # others \<Rightarrow>
               (if i + 1 = 0 then ''low'' else ''medium'') # replicate (length others) ''medium'')"
       "list_all2 (coordinatesFor P) rest entries"
    by blast
  have run: "marketHeatmapFrom P (map JStr (market # rest)) i k = Inr (?entry # entries, k')"
    using c r(1) by (simp add: Let_def)
  have coord: "coordinatesFor P market ?entry"
    using c by (auto simp: coordinatesFor_def split: lookup.splits prod.splits)
  have "map risk entries = replicate (length rest) ''medium''"
    using r(4) by (cases rest) simp_all
  then have risks: "map risk (?entry # entries)
      = (if i = 0 then ''low'' else ''medium'') # replicate (length rest) ''medium''"
    by simp
  from run r(2,3,5) coord risks show ?case by auto
qed

text \<open>
  The heatmap of a list of market names: one record per name, in order and under that
  name, every demand \<open>high\<close>, the first risk \<open>low\<close> and the others \<open>medium\<close>. A name of the
  table gets the table's coordinates; a name that is neither in the table nor a property
  of \<open>Object.prototype\<close> gets two random offsets from (12.9716, 77.5946); a name that is
  a property of \<open>Object.prototype\<close> gets no coordinates.
\<close>

theorem generateMarketHeatmap_names:
  "\<exists>entries k'. generateMarketHeatmap P (map JStr names) k = Inr (entries, k')
     \<and> length entries = length names
     \<and> map name entries = map JStr names
     \<and> list_all (\<lambda>r. demand r = ''high'') entries
     \<and> map risk entries =
          (case names of [] \<Rightarrow> []
           | first # others \<Rightarrow> ''low'' # replicate (length others) ''medium'')
     \<and> list_all2 (coordinatesFor P) names entries"
proof -
  from marketHeatmapFrom_strings [of P names 0 k] obtain entries k' where
    r: "marketHeatmapFrom P (map JStr names) 0 k = Inr (entries, k')"
       "map name entries = map JStr names"
       "list_all (\<lambda>r. demand r = ''high'') entries"
       "map risk entries =
          (case names of [] \<Rightarrow> []
           | first # others \<Rightarrow>
               (if (0::nat) = 0 then ''low'' else ''medium'') # replicate (length others) ''medium'')"
       "list_all2 (coordinatesFor P) names entries"
    by blast
  from r(5) have "length entries = length names"
    by (simp add: list_all2_lengthD)
  with r show ?thesis
    by (auto simp: generateMarketHeatmap_def)
qed

lemma generateMarketHeatmap_strings_returns:
  "\<exists>entries k'. generateMarketHeatmap P (map JStr names) k = Inr (entries, k')"
  using marketHeatmapFrom_strings [of P names 0 k] by (auto simp: generateMarketHeatmap_def)

text \<open>
  C10, at a name that the table does not know and that \<open>Object.prototype\<close> does:
  \<open>baseCoordinates['constructor']\<close> is the function \<open>Object\<close>, which is truthy, so no
  random coordinates are drawn and \<open>lat\<close> and \<open>lng\<close> are \<open>undefined\<close>.
\<close>

theorem generateMarketHeatmap_inherited_name:
  "map_of baseCoordinates ''constructor'' = None
   \<and> generateMarketHeatmap P [JStr ''constructor''] k
       = Inr ([\<lparr>name = JStr ''constructor'', lat = None, lng = None, demand = ''high'',
                 price = 25 + mathRandom P k * 15, risk = ''low''\<rparr>], k + 1)"
  by (simp add: generateMarketHeatmap_def objectLookup_def baseCoordinates_def
      objectPrototypeKeys_def)

subsection \<open>Reshaping\<close>

lemma mapProp_fields:
  "JNull \<notin> set items \<Longrightarrow> mapProp key items = Inr (map (\<lambda>item. field item key) items)"
proof (induction items)
  case Nil
  show ?case by simp
next
  case (Cons a items)
  then have a: "a \<noteq> JNull" and rest: "JNull \<notin> set items" by auto
  show ?case by (simp add: getProp_not_null [OF a] Cons.IH [OF rest])
qed

lemma validTrendItems_not_null: "list_all validTrendItem items \<Longrightarrow> JNull \<notin> set items"
  by (auto simp: list_all_iff validTrendItem_def)

lemma string_names: "list_all (\<lambda>x. isString (Some x)) xs \<Longrightarrow> \<exists>names. xs = map JStr names"
proof (induction xs)
  case Nil
  then show ?case by simp
next
  case (Cons x xs)
  then obtain names where "xs = map JStr names" by auto
  moreover from Cons.prems obtain s where "x = JStr s" by (cases x) auto
  ultimately have "x # xs = map JStr (s # names)" by simp
  then show ?case by (rule exI)
qed

lemma elementTexts_strings: "elementTexts nts (map JStr names) = Inr names"
  by (induction names) simp_all

lemma isString_toText: "isString v \<Longrightarrow> \<exists>t. toText P v = Inr t"
  by (cases v rule: isString.cases) (simp_all add: toText_def)

lemma isNumber_toText: "isNumber v \<Longrightarrow> \<exists>t. toText P v = Inr t"
  by (cases v rule: isNumber.cases) (simp_all add: toText_def)

lemma formatForecastResponse_valid:
  assumes valid: "validAISchema aiData"
    and items: "field aiData ''forecast_trend'' = Some (JArr items)"
  shows "\<exists>f k'. formatForecastResponse P aiData inputData k = Inr (f, k')
           \<and> day30 (demandTrend f) = map (\<lambda>item. field item ''expected_demand_kg'') items
           \<and> day14 (demandTrend f) = take 14 (map (\<lambda>item. field item ''expected_demand_kg'') items)
           \<and> day7 (demandTrend f) = take 7 (map (\<lambda>item. field item ''expected_demand_kg'') items)
           \<and> day30 (priceTrend f) = map (\<lambda>item. field item ''expected_price_per_kg'') items
           \<and> day14 (priceTrend f) = take 14 (map (\<lambda>item. field item ''expected_price_per_kg'') items)
           \<and> day7 (priceTrend f) = take 7 (map (\<lambda>item. field item ''expected_price_per_kg'') items)
           \<and> source f = ''gemini-ai''"
proof -
  from valid have nn: "aiData \<noteq> JNull" by (simp add: validAISchema_def)
  note gp = getProp_not_null [OF nn]
  from valid items have li: "list_all validTrendItem items"
    by (simp add: validAISchema_def)
  then have notnull: "JNull \<notin> set items" by (rule validTrendItems_not_null)
  then have nn7: "JNull \<notin> set (take 7 items)" and nn14: "JNull \<notin> set (take 14 items)"
    by (auto dest: in_set_takeD)
  from valid obtain label where risk: "field aiData ''glut_risk'' = Some (JStr label)"
    by (auto simp: validAISchema_def riskLabels_def)
  from valid obtain t1 where t1: "toText P (field aiData ''optimal_planting_time'') = Inr t1"
    using isString_toText by (auto simp: validAISchema_def)
  from valid obtain t2 where t2: "toText P (field aiData ''optimal_selling_time'') = Inr t2"
    using isString_toText by (auto simp: validAISchema_def)
  from valid obtain t3 where t3: "toText P (field aiData ''recommended_quantity_kg'') = Inr t3"
    using isNumber_toText by (auto simp: validAISchema_def)
  from valid obtain ms where ms: "field aiData ''suggested_markets'' = Some (JArr ms)"
      and sa: "list_all (\<lambda>x. isString (Some x)) ms"
    by (cases "field aiData ''suggested_markets''" rule: isStringArray.cases)
       (auto simp: validAISchema_def)
  from string_names [OF sa] obtain names where names: "ms = map JStr names" by blast
  from generateMarketHeatmap_strings_returns obtain m1 k1 where
    h1: "generateMarketHeatmap P (map JStr names) k = Inr (m1, k1)" by blast
  from generateMarketHeatmap_strings_returns obtain m2 k2 where
    h2: "generateMarketHeatmap P (map JStr names) k1 = Inr (m2, k2)" by blast
  show ?thesis
    unfolding formatForecastResponse_def
    by (simp add: gp items mapProp_fields [OF notnull] mapProp_fields [OF nn7]
        mapProp_fields [OF nn14] risk t1 t2 t3 ms names elementTexts_strings h1 h2 take_map)
qed

text \<open>
  C4. For a reply in the schema whose trend array has \<open>n < 30\<close> entries, the reshaped
  forecast has as its 30-day series the \<open>n\<close> demand values (and the \<open>n\<close> price values) of
  the entries in order, nothing added; its 14-day series is the first \<open>min n 14\<close> of
  them and its 7-day series the first \<open>min n 7\<close>.
\<close>

theorem formatForecastResponse_truncates:
  assumes "validAISchema aiData"
    and "field aiData ''forecast_trend'' = Some (JArr items)"
    and "length items < 30"
  shows "\<exists>f k'. formatForecastResponse P aiData inputData k = Inr (f, k')
           \<and> day30 (demandTrend f) = map (\<lambda>item. field item ''expected_demand_kg'') items
           \<and> day14 (demandTrend f) = take (min (length items) 14) (day30 (demandTrend f))
           \<and> day7 (demandTrend f) = take (min (length items) 7) (day30 (demandTrend f))
           \<and> day30 (priceTrend f) = map (\<lambda>item. field item ''expected_price_per_kg'') items
           \<and> day14 (priceTrend f) = take (min (length items) 14) (day30 (priceTrend f))
           \<and> day7 (priceTrend f) = take (min (length items) 7) (day30 (priceTrend f))
           \<and> length (day30 (demandTrend f)) = length items
           \<and> length (day14 (demandTrend f)) = min (length items) 14
           \<and> length (day7 (demandTrend f)) = min (length items) 7"
proof -
  from formatForecastResponse_valid [OF assms(1,2), of P inputData k] obtain f k' where
    f: "formatForecastResponse P aiData inputData k = Inr (f, k')"
       "day30 (demandTrend f) = map (\<lambda>item. field item ''expected_demand_kg'') items"
       "day14 (demandTrend f) = take 14 (map (\<lambda>item. field item ''expected_demand_kg'') items)"
       "day7 (demandTrend f) = take 7 (map (\<lambda>item. field item ''expected_demand_kg'') items)"
       "day30 (priceTrend f) = map (\<lambda>item. field item ''expected_price_per_kg'') items"
       "day14 (priceTrend f) = take 14 (map (\<lambda>item. field item ''expected_price_per_kg'') items)"
       "day7 (priceTrend f) = take 7 (map (\<lambda>item. field item ''expected_price_per_kg'') items)"
    by blast
  have t: "take (min (length items) m) (map g items) = take m (map g items)" for m and g :: "json \<Rightarrow> json option"
    by (cases "length items \<le> m") (simp_all add: min_def)
  from f show ?thesis
    by (intro exI [of _ f] exI [of _ k']) (simp add: t min.commute)
qed

lemma exampleReply_valid: "validAISchema exampleReply"
  by (simp add: validAISchema_def exampleReply_def field_def riskLabels_def
      validTrendItem_def list_all_iff)

lemma exampleReply_trend:
  "field exampleReply ''forecast_trend''
     = Some (JArr (map (\<lambda>n. JObj [(''date'', JStr ''2026-11-03''),
                                   (''expected_demand_kg'', JNum (100 + real n)),
                                   (''expected_price_per_kg'', JNum 25)]) [0 ..< 10]))"
  by (simp add: exampleReply_def field_def)

theorem formatForecastResponse_truncates_witness:
  "validAISchema exampleReply
   \<and> (\<exists>f k'. formatForecastResponse examplePlatform exampleReply exampleRequest 0 = Inr (f, k')
        \<and> day30 (demandTrend f) = map (\<lambda>n. Some (JNum (100 + real n))) [0 ..< 10]
        \<and> length (day30 (demandTrend f)) = 10
        \<and> length (day14 (demandTrend f)) = 10
        \<and> length (day7 (demandTrend f)) = 7
        \<and> day7 (demandTrend f) = map (\<lambda>n. Some (JNum (100 + real n))) [0 ..< 7])"
proof -
  let ?items = "map (\<lambda>n. JObj [(''date'', JStr ''2026-11-03''),
                                (''expected_demand_kg'', JNum (100 + real n)),
                                (''expected_price_per_kg'', JNum 25)]) [0 ..< 10]"
  have len: "length ?items < 30" by simp
  from formatForecastResponse_truncates [OF exampleReply_valid exampleReply_trend len,
      of examplePlatform exampleRequest 0]
  obtain f k' where
    f: "formatForecastResponse examplePlatform exampleReply exampleRequest 0 = Inr (f, k')"
       "day30 (demandTrend f) = map (\<lambda>item. field item ''expected_demand_kg'') ?items"
       "day7 (demandTrend f) = take (min (length ?items) 7) (day30 (demandTrend f))"
       "length (day30 (demandTrend f)) = length ?items"
       "length (day14 (demandTrend f)) = min (length ?items) 14"
       "length (day7 (demandTrend f)) = min (length ?items) 7"
    by blast
  have d30: "day30 (demandTrend f) = map (\<lambda>n. Some (JNum (100 + real n))) [0 ..< 10]"
    unfolding f(2) by (simp add: field_def comp_def)
  have d7: "day7 (demandTrend f) = map (\<lambda>n. Some (JNum (100 + real n))) [0 ..< 7]"
    unfolding f(3) d30 by (simp add: take_map)
  from f(1,4,5,6) d30 d7 exampleReply_valid show ?thesis
    by (intro conjI exI [of _ f] exI [of _ k']) simp_all
qed

subsection \<open>Dates\<close>

lemma MonthFromTime_range: "0 \<le> MonthFromTime t \<and> MonthFromTime t \<le> 11"
  by (simp add: MonthFromTime_def Let_def)

lemma MakeDay_DateFromTime:
  "MakeDay (YearFromTime t) (MonthFromTime t) (DateFromTime t + n) = Day t + n"
proof -
  from MonthFromTime_range [of t]
  have d: "MonthFromTime t div 12 = 0" and m: "MonthFromTime t mod 12 = MonthFromTime t"
    by simp_all
  show ?thesis
    by (simp add: MakeDay_def Let_def d m DateFromTime_def DayWithinYear_def InLeapYear_def)
qed

lemma MakeDate_Day: "MakeDate (Day t + n) (TimeWithinDay t) = t + n * msPerDay"
proof -
  have "t div msPerDay * msPerDay + t mod msPerDay = t" by simp
  then show ?thesis
    by (simp add: MakeDate_def Day_def TimeWithinDay_def algebra_simps)
qed

text \<open>Setting the day of the month to itself plus \<open>n\<close> moves the date by \<open>n\<close> days,
  across the ends of months and years.\<close>

lemma setDate_getDate: "setDate P t (getDate P t + n) = TimeClip (t + n * msPerDay)"
  by (simp add: setDate_def getDate_def Let_def MakeDay_DateFromTime MakeDate_Day
      LocalTime_def UTC_def)


lemma mock_dates:
  assumes "clockInRange P"
  shows "setDate P (dateNow P) (getDate P (dateNow P) + 7) = Some (dateNow P + 7 * msPerDay)"
    and "setDate P (dateNow P + 7 * msPerDay) (getDate P (dateNow P + 7 * msPerDay) + 90)
           = Some (dateNow P + 97 * msPerDay)"
proof -
  have e: "dateNow P + 7 * msPerDay + 90 * msPerDay = dateNow P + 97 * msPerDay" by simp
  from assms
  show "setDate P (dateNow P) (getDate P (dateNow P) + 7) = Some (dateNow P + 7 * msPerDay)"
    by (simp add: setDate_getDate TimeClip_def clockInRange_def)
  from assms
  show "setDate P (dateNow P + 7 * msPerDay) (getDate P (dateNow P + 7 * msPerDay) + 90)
           = Some (dateNow P + 97 * msPerDay)"
    unfolding setDate_getDate e by (simp add: TimeClip_def clockInRange_def)
qed

lemma digits_2:
  "digits 2 n = [''0123456789'' ! (n div 10 mod 10), ''0123456789'' ! (n mod 10)]"
proof -
  have e: "(2::nat) = Suc (Suc 0)" by simp
  show ?thesis unfolding e by simp
qed

lemma digits_4:
  "digits 4 n = [''0123456789'' ! (n div 10 div 10 div 10 mod 10),
                 ''0123456789'' ! (n div 10 div 10 mod 10),
                 ''0123456789'' ! (n div 10 mod 10), ''0123456789'' ! (n mod 10)]"
proof -
  have e: "(4::nat) = Suc (Suc (Suc (Suc 0)))" by simp
  show ?thesis unfolding e by simp
qed

lemmas calendar_defs =
  isoDate_def msPerDay_def YearFromTime_def DayFromYear_def DaysInYear_def MonthFromTime_def
  DateFromTime_def DayWithinYear_def Day_def InLeapYear_def monthStart_def Let_def
  digits_2 digits_4

text \<open>The calendar on some dates: the epoch, the day before it, a leap day, the two
  ends of a year.\<close>

lemma isoDate_examples:
  "isoDate 0 = ''1970-01-01''"
  "isoDate (- 1) = ''1969-12-31''"
  "isoDate 951782400000 = ''2000-02-29''"
  "isoDate 4102444799999 = ''2099-12-31''"
  "isoDate 4102444800000 = ''2100-01-01''"
  by (simp_all add: calendar_defs)

lemma examplePlatform_clock: "clockInRange examplePlatform"
  by (simp add: clockInRange_def examplePlatform_def msPerDay_def)



subsection \<open>The mock forecast generator\<close>

lemma windowsOf_push:
  assumes "windowsOf i t"
  shows "windowsOf (Suc i)
           (let t30 = t\<lparr>day30 := day30 t @ [x]\<rparr>;
                t14 = (if i < 14 then t30\<lparr>day14 := day14 t30 @ [x]\<rparr> else t30)
            in (if i < 7 then t14\<lparr>day7 := day7 t14 @ [x]\<rparr> else t14))"
  using assms by (auto simp: windowsOf_def Let_def take_Suc_conv_app_nth)

lemma mockLoop_windows:
  assumes "mockLoop P cropData baseDemand i (dT, pT, k) = (dT', pT', k')"
    and "i \<le> 30" and "windowsOf i dT" and "windowsOf i pT"
  shows "windowsOf 30 dT' \<and> windowsOf 30 pT' \<and> k' = k + (30 - i)"
  using assms
proof (induction P cropData baseDemand i "(dT, pT, k)" arbitrary: dT pT k rule: mockLoop.induct)
  case (1 P cropData baseDemand i demandTrend priceTrend k)
  show ?case
  proof (cases "i < 30")
    case False
    with "1.prems" show ?thesis by (simp add: mockLoop.simps)
  next
    case True
    let ?rf = "nadd (Num 1) (nmul (Num (mathRandom P k - 0.5)) (volatility cropData))"
    let ?d = "nround (nmul (nmul baseDemand (Num (1 + sin (real i / 7) * 0.1))) ?rf)"
    let ?p = "ndiv (nround (nmul (nmul (basePrice cropData) ?rf) (Num 100))) 100"
    let ?dT = "(let t30 = demandTrend\<lparr>day30 := day30 demandTrend @ [?d]\<rparr>;
                t14 = (if i < 14 then t30\<lparr>day14 := day14 t30 @ [?d]\<rparr> else t30)
            in (if i < 7 then t14\<lparr>day7 := day7 t14 @ [?d]\<rparr> else t14))"
    let ?pT = "(let t30 = priceTrend\<lparr>day30 := day30 priceTrend @ [?p]\<rparr>;
                t14 = (if i < 14 then t30\<lparr>day14 := day14 t30 @ [?p]\<rparr> else t30)
            in (if i < 7 then t14\<lparr>day7 := day7 t14 @ [?p]\<rparr> else t14))"
    have step: "mockLoop P cropData baseDemand i (demandTrend, priceTrend, k)
                  = mockLoop P cropData baseDemand (i + 1) (?dT, ?pT, k + 1)"
      using True by (subst mockLoop.simps) (simp add: Let_def)
    have wd: "windowsOf (Suc i) ?dT" by (rule windowsOf_push [OF "1.prems"(3)])
    have wp: "windowsOf (Suc i) ?pT" by (rule windowsOf_push [OF "1.prems"(4)])
    have "windowsOf 30 dT' \<and> windowsOf 30 pT' \<and> k' = (k + 1) + (30 - (i + 1))"
    proof (rule "1.hyps" [OF True])
      show "mockLoop P cropData baseDemand (i + 1) (?dT, ?pT, k + 1) = (dT', pT', k')"
        using "1.prems"(1) step by simp
      show "i + 1 \<le> 30" using True by simp
      show "windowsOf (i + 1) ?dT" using wd by simp
      show "windowsOf (i + 1) ?pT" using wp by simp
    qed (simp_all add: Let_def)
    with True show ?thesis by simp
  qed
qed


text \<open>What a forecast returned by the generator is made of.\<close>

lemma generateMockForecast_Inr:
  assumes "generateMockForecast P inputData k = Inr (f, k')"
  shows "\<exists>dT pT k1 names planting selling heat.
           mockLoop P (cropDataFor (crop inputData))
             (nround (nmul (Num (orDefault (quantity inputData) 100))
                (demandMultiplier (cropDataFor (crop inputData))))) 0
             (emptyTrend, emptyTrend, k) = (dT, pT, k1)
         \<and> suggestedMarketsFor (district inputData) = Some names
         \<and> setDate P (dateNow P) (getDate P (dateNow P) + 7) = Some planting
         \<and> setDate P planting (getDate P planting + 90) = Some selling
         \<and> generateMarketHeatmap P (map JStr names) k1 = Inr (heat, k')
         \<and> f = \<lparr>crop = crop inputData, district = district inputData,
                  season = season inputData,
                  quantity = Some (orDefault (quantity inputData) 100),
                  success = True,
                  demandTrend = dT,
                  priceTrend = pT,
                  glutRisk =
                    (if ngt (Num (orDefault (quantity inputData) 100))
                          (nmul (ndiv (nsum (day30 dT)) 30) (Num 1.5)) then ''high''
                     else if ngt (Num (orDefault (quantity inputData) 100))
                          (nmul (ndiv (nsum (day30 dT)) 30) (Num 1.2)) then ''medium''
                     else ''low''),
                  optimalPlantingTime = isoDate planting,
                  optimalSellingTime = isoDate selling,
                  recommendedQuantity = nround (nmul (ndiv (nsum (day30 dT)) 30) (Num 0.9)),
                  suggestedMarkets = names,
                  marketHeatmap = heat,
                  source = ''mock-data''\<rparr>"
  using assms
  unfolding generateMockForecast_def Let_def
  by (auto simp: andThen_Inr_iff split: prod.splits option.splits)

lemma windowsOf_emptyTrend: "windowsOf 0 emptyTrend"
  by (simp add: windowsOf_def emptyTrend_def)

lemma generateMockForecast_windows:
  assumes "generateMockForecast P inputData k = Inr (f, k')"
  shows "windowsOf 30 (demandTrend f) \<and> windowsOf 30 (priceTrend f)"
proof -
  from generateMockForecast_Inr [OF assms] obtain dT pT k1 where
    loop: "mockLoop P (cropDataFor (crop inputData))
             (nround (nmul (Num (orDefault (quantity inputData) 100))
                (demandMultiplier (cropDataFor (crop inputData))))) 0
             (emptyTrend, emptyTrend, k) = (dT, pT, k1)"
    and f: "demandTrend f = dT" "priceTrend f = pT"
    by auto
  from mockLoop_windows [OF loop _ windowsOf_emptyTrend windowsOf_emptyTrend] f
  show ?thesis by simp
qed

text \<open>The generator returns unless the district names a property of
  \<open>Object.prototype\<close>; then it throws.\<close>

lemma generateMockForecast_returns:
  assumes "clockInRange P" and "suggestedMarketsFor (district inputData) \<noteq> None"
  shows "\<exists>f k'. generateMockForecast P inputData k = Inr (f, k')"
proof -
  from assms(2) obtain names where names: "suggestedMarketsFor (district inputData) = Some names"
    by auto
  obtain dT pT k1 where loop:
    "mockLoop P (cropDataFor (crop inputData))
       (nround (nmul (Num (orDefault (quantity inputData) 100))
          (demandMultiplier (cropDataFor (crop inputData))))) 0
       (emptyTrend, emptyTrend, k) = (dT, pT, k1)"
    by (metis prod_cases3)
  from generateMarketHeatmap_strings_returns obtain heat k2 where
    heat: "generateMarketHeatmap P (map JStr names) k1 = Inr (heat, k2)"
    by blast
  show ?thesis
    unfolding generateMockForecast_def Let_def
    by (simp add: loop names heat mock_dates [OF assms(1)])
qed

lemma generateMockForecast_inherited_district:
  assumes "clockInRange P" and "suggestedMarketsFor (district inputData) = None"
  shows "generateMockForecast P inputData k = Inl TypeError"
  unfolding generateMockForecast_def Let_def
  by (simp add: assms(2) mock_dates [OF assms(1)] split: prod.splits)

lemma exampleRequest_district: "suggestedMarketsFor (district exampleRequest) \<noteq> None"
  by (simp add: suggestedMarketsFor_def exampleRequest_def objectLookup_def
      marketsByDistrict_def)


lemma inheritedRequest_district: "suggestedMarketsFor (district inheritedRequest) = None"
  by (simp add: suggestedMarketsFor_def inheritedRequest_def objectLookup_def
      marketsByDistrict_def objectPrototypeKeys_def)

text \<open>
  C2. In a forecast of the mock generator the 7-day series is the first 7 entries of the
  14-day series and the 14-day series is the first 14 entries of the 30-day series, for
  demand and for price; the three series have 7, 14 and 30 entries.
\<close>

theorem mock_prefix_invariant:
  assumes "generateMockForecast P inputData k = Inr (f, k')"
  shows "day7 (demandTrend f) = take 7 (day14 (demandTrend f))
       \<and> day14 (demandTrend f) = take 14 (day30 (demandTrend f))
       \<and> day7 (priceTrend f) = take 7 (day14 (priceTrend f))
       \<and> day14 (priceTrend f) = take 14 (day30 (priceTrend f))
       \<and> length (day7 (demandTrend f)) = 7 \<and> length (day14 (demandTrend f)) = 14
       \<and> length (day30 (demandTrend f)) = 30
       \<and> length (day7 (priceTrend f)) = 7 \<and> length (day14 (priceTrend f)) = 14
       \<and> length (day30 (priceTrend f)) = 30"
  using generateMockForecast_windows [OF assms]
  by (simp add: windowsOf_def)

theorem mock_prefix_invariant_witness:
  "\<exists>f k'. generateMockForecast examplePlatform exampleRequest 0 = Inr (f, k')
     \<and> day7 (demandTrend f) = take 7 (day14 (demandTrend f))
     \<and> day14 (demandTrend f) = take 14 (day30 (demandTrend f))
     \<and> day7 (priceTrend f) = take 7 (day14 (priceTrend f))
     \<and> day14 (priceTrend f) = take 14 (day30 (priceTrend f))
     \<and> length (day30 (demandTrend f)) = 30 \<and> length (day30 (priceTrend f)) = 30"
proof -
  from generateMockForecast_returns [OF examplePlatform_clock exampleRequest_district]
  obtain f k' where f: "generateMockForecast examplePlatform exampleRequest 0 = Inr (f, k')"
    by blast
  from mock_prefix_invariant [OF f] f show ?thesis by blast
qed


















subsection \<open>The orchestrator\<close>

text \<open>Without a credential the service is not available.\<close>

lemma init_without_credential: "init None c = False \<and> init (Some []) c = False"
  by (simp add: init_def)

text \<open>
  Whatever the model's reply, \<open>generateForecast\<close> returns a forecast, provided the mock
  generator does (the district names no property of \<open>Object.prototype\<close>): the reshaped
  reply when the reply arrives, parses, validates and reshapes, and otherwise the mock
  forecast, tagged \<open>mock-data\<close>.
\<close>

theorem generateForecast_fallback:
  assumes "clockInRange P" and "suggestedMarketsFor (district inputData) \<noteq> None"
  shows "(\<exists>r k'. generateForecast P isAvailable fullResponse inputData k = Inr (r, k'))
       \<and> (\<not> isAvailable
            \<or> (\<exists>e. andThen fullResponse (\<lambda>text. normalizeResponse P text inputData k) = Inl e)
          \<longrightarrow> (\<exists>f k'. generateMockForecast P inputData k = Inr (f, k')
                  \<and> generateForecast P isAvailable fullResponse inputData k
                      = Inr (MockForecast f, k')
                  \<and> source f = ''mock-data''))"
proof -
  from generateMockForecast_returns [OF assms] obtain f k' where
    f: "generateMockForecast P inputData k = Inr (f, k')" by blast
  from generateMockForecast_Inr [OF f] have src: "source f = ''mock-data''" by auto
  show ?thesis
  proof (cases "andThen fullResponse (\<lambda>text. normalizeResponse P text inputData k)")
    case (Inl e)
    with f src show ?thesis by (auto simp: generateForecast_def)
  next
    case (Inr a)
    with f src show ?thesis by (cases a) (auto simp: generateForecast_def)
  qed
qed

theorem generateForecast_fallback_witness:
  "clockInRange examplePlatform \<and> suggestedMarketsFor (district exampleRequest) \<noteq> None
   \<and> (\<exists>f k'. generateForecast examplePlatform True
                (Inl (Error ''AI request timeout after 15 seconds'')) exampleRequest 0
              = Inr (MockForecast f, k')
        \<and> source f = ''mock-data'')"
proof -
  from generateForecast_fallback [OF examplePlatform_clock exampleRequest_district,
      of True "Inl (Error ''AI request timeout after 15 seconds'')" 0]
  have "\<exists>f k'. generateMockForecast examplePlatform exampleRequest 0 = Inr (f, k')
          \<and> generateForecast examplePlatform True
                (Inl (Error ''AI request timeout after 15 seconds'')) exampleRequest 0
              = Inr (MockForecast f, k')
          \<and> source f = ''mock-data''"
    by simp
  with examplePlatform_clock exampleRequest_district show ?thesis by blast
qed

text \<open>
  C1, at a request whose district is \<open>constructor\<close>: \<open>marketsByDistrict['constructor']\<close> is
  the function \<open>Object\<close>, the default list is not taken, \<open>suggestedMarkets.slice\<close> is not a
  function, and the mock generator throws a \<open>TypeError\<close>. \<open>generateForecast\<close> calls it
  outside the \<open>try\<close> block (no credential) or inside the \<open>catch\<close> block (here after a
  timeout), so the exception leaves \<open>generateForecast\<close>.
\<close>

theorem generateForecast_inherited_district_throws:
  "generateForecast examplePlatform False (Inr exampleText) inheritedRequest 0 = Inl TypeError
   \<and> generateForecast examplePlatform True
        (Inl (Error ''AI request timeout after 15 seconds'')) inheritedRequest 0
       = Inl TypeError"
  by (simp add: generateForecast_def
      generateMockForecast_inherited_district [OF examplePlatform_clock inheritedRequest_district])

subsection \<open>Volatility buckets\<close>






end
